theory Spec2Isabelle
  imports Main "HOL-Library.Word" "HOL-Library.Sublist"
begin

section \<open>The capture reader of reass: \<^verbatim>\<open>lib/pcap_reader.cpp\<close>\<close>

text \<open>
  The file defines the class \<^verbatim>\<open>pcap_reader_t\<close>: it owns at most one libpcap handle,
  zero or one TCP reassembler and zero or one UDP reassembler, and its member
  \<^verbatim>\<open>handle_packet\<close> is the callback libpcap invokes once per captured frame.

  Everything the class talks to is declared in other files: libpcap, the packet class
  \<^verbatim>\<open>packet_t\<close>, the listener \<^verbatim>\<open>packet_listener_t\<close>, the two reassemblers and the free list
  the class derives from. The embedding therefore has two parts.
  \<^item> The object itself is a record of its data members. Every call it makes on a
    collaborator is appended to the field \<open>calls\<close>, in program order, so that what the
    code did can be read off afterwards.
  \<^item> What a collaborator answers (a returned value, or an exception thrown) is not decided
    by this file; it is an argument of the embedded function, quantified over in the
    theorems.

  Embedded are the constructor, \<^verbatim>\<open>enable_tcp_reassembly\<close>, \<^verbatim>\<open>enable_udp_reassembly\<close>,
  \<^verbatim>\<open>handle_packet\<close>, \<^verbatim>\<open>set_bpf\<close>, \<^verbatim>\<open>open_file\<close>, \<^verbatim>\<open>close_file\<close>, \<^verbatim>\<open>open_live_capture\<close>,
  \<^verbatim>\<open>close_live_capture\<close>, \<^verbatim>\<open>read_packets\<close>, \<^verbatim>\<open>read_file\<close> and the guard \<^verbatim>\<open>pcap_close_guard_t\<close>.
  A callback of a collaborator does not call back into the reader.
\<close>

subsection \<open>Data model\<close>

type_synonym pcap_t = nat
  \<comment> \<open>an open libpcap handle; the pointer \<^verbatim>\<open>pcap_t *\<close> is \<open>pcap_t option\<close>, \<open>None\<close> for \<^verbatim>\<open>NULL\<close>\<close>

type_synonym listener = nat
  \<comment> \<open>the identity of a \<^verbatim>\<open>packet_listener_t\<close> object\<close>

type_synonym packet_ptr = nat
  \<comment> \<open>the identity of a pooled \<^verbatim>\<open>packet_t\<close> object\<close>

type_synonym u_char = "8 word"

record pcap_pkthdr =
  tv_sec :: int
  tv_usec :: int
  caplen :: nat
  len :: nat

text \<open>
  The enumeration of layer types is declared with the packet class. This file names three
  of its values; \<open>layer_other\<close> stands for every other enumerator. A layer is represented
  by its type, the only thing \<^verbatim>\<open>handle_packet\<close> reads from it.
\<close>

datatype layer_type = layer_tcp | layer_udp | layer_data | layer_other

text \<open>
  Exceptions. The handlers of \<^verbatim>\<open>handle_packet\<close> distinguish \<^verbatim>\<open>unknown_layer_t\<close> from every
  other \<^verbatim>\<open>std::exception\<close>; \<^verbatim>\<open>format_exception\<close>, which this file throws, is one of the
  latter. The string is the value of \<^verbatim>\<open>what()\<close>. Every exception a collaborator throws is
  taken to be of one of the two kinds, which are the ones the handlers are written for.
  A failed \<^verbatim>\<open>assert\<close> is not an exception: it ends the process without unwinding.
\<close>

datatype exn = unknown_layer_t string | std_exception string

datatype abrupt = Throw exn | Abort

definition format_exception :: "string \<Rightarrow> exn" where
  "format_exception msg = std_exception msg"

text \<open>
  Modelled from the spec: the classes \<^verbatim>\<open>tcp_reassembler_t\<close> and \<^verbatim>\<open>udp_reassembler_t\<close> are
  declared in headers that are not part of this source file. By the spec a reassembler
  is constructed bound to a consumer and is used only through its member calls. It is
  represented by the argument of its constructor and by the member calls it has
  received since, which together determine its state; a newly constructed one has
  received nothing.
\<close>

datatype rcall = SetNow int | Process packet_ptr

record reassembler =
  ctor_listener :: listener
  received :: "rcall list"

definition new_reassembler :: "listener \<Rightarrow> reassembler" where
  "new_reassembler l = \<lparr>ctor_listener = l, received = []\<rparr>"

definition heard :: "rcall \<Rightarrow> reassembler \<Rightarrow> reassembler" where
  "heard rc r = r\<lparr>received := received r @ [rc]\<rparr>"

text \<open>The calls the reader makes on its collaborators.\<close>

datatype event =
    Claim packet_ptr
  | Init packet_ptr "int option" pcap_pkthdr "u_char list"
  | Tcp rcall
  | Udp rcall
  | Accept listener packet_ptr
  | AcceptError listener packet_ptr string
  | Release packet_ptr
  | CopyData packet_ptr
  | NewTcp listener
  | DeleteTcp
  | NewUdp listener
  | DeleteUdp
  | PcapOpenOffline string
  | PcapOpenLive string int bool int
  | PcapCompile "pcap_t option" string
  | PcapSetfilter "pcap_t option"
  | PcapDatalink "pcap_t option"
  | PcapDispatch "pcap_t option"
  | PcapClose "pcap_t option"
  | BeginCapture listener string "int option" int

text \<open>
  The data members. \<^verbatim>\<open>d_linktype\<close> and \<^verbatim>\<open>d_bpf\<close> are not initialised by the constructor:
  \<open>None\<close> is the value never assigned. The member \<^verbatim>\<open>d_packetnr\<close> exists only under
  \<^verbatim>\<open>PRINT_STATS\<close> and is left out.
\<close>

record pcap_reader =
  d_pcap :: "pcap_t option"
  d_bpf :: "string option"
  d_linktype :: "int option"
  d_listener :: listener
  d_tcp_reassembler :: "reassembler option"
  d_udp_reassembler :: "reassembler option"
  calls :: "event list"

subsection \<open>Statements that may throw\<close>

text \<open>
  A statement takes the object to a result and the object afterwards: \<open>Inr ()\<close> when it
  completes, \<open>Inl e\<close> when it exits by throwing \<open>e\<close>. The object is kept in both cases, as
  members written before a throw stay written.
\<close>

type_synonym 'e stmt = "pcap_reader \<Rightarrow> ('e + unit) \<times> pcap_reader"

definition skip :: "'e stmt" where
  "skip s = (Inr (), s)"

definition throw :: "'e \<Rightarrow> 'e stmt" where
  "throw e s = (Inl e, s)"

definition seq :: "'e stmt \<Rightarrow> 'e stmt \<Rightarrow> 'e stmt" where
  "seq m k s = (case m s of (Inl e, s') \<Rightarrow> (Inl e, s') | (Inr u, s') \<Rightarrow> k s')"

text \<open>
  A call on a collaborator: it is recorded, and it throws what the collaborator is said
  to throw there (\<open>None\<close>: it returns).
\<close>

definition extcall :: "event \<Rightarrow> exn option \<Rightarrow> exn stmt" where
  "extcall ev raised s =
     ((case raised of None \<Rightarrow> Inr () | Some e \<Rightarrow> Inl e), s\<lparr>calls := calls s @ [ev]\<rparr>)"

definition tcp_call :: "rcall \<Rightarrow> exn option \<Rightarrow> exn stmt" where
  "tcp_call rc raised s =
     extcall (Tcp rc) raised
       (s\<lparr>d_tcp_reassembler := map_option (heard rc) (d_tcp_reassembler s)\<rparr>)"

definition udp_call :: "rcall \<Rightarrow> exn option \<Rightarrow> exn stmt" where
  "udp_call rc raised s =
     extcall (Udp rc) raised
       (s\<lparr>d_udp_reassembler := map_option (heard rc) (d_udp_reassembler s)\<rparr>)"

subsection \<open>Enabling and disabling the reassemblers\<close>

definition enable_tcp_reassembly :: "bool \<Rightarrow> pcap_reader \<Rightarrow> pcap_reader" where
  "enable_tcp_reassembly en s =
     (if en \<and> d_tcp_reassembler s = None then
        s\<lparr>d_tcp_reassembler := Some (new_reassembler (d_listener s)),
          calls := calls s @ [NewTcp (d_listener s)]\<rparr>
      else if \<not> en \<and> d_tcp_reassembler s \<noteq> None then
        s\<lparr>d_tcp_reassembler := None, calls := calls s @ [DeleteTcp]\<rparr>
      else s)"

definition enable_udp_reassembly :: "bool \<Rightarrow> pcap_reader \<Rightarrow> pcap_reader" where
  "enable_udp_reassembly en s =
     (if en \<and> d_udp_reassembler s = None then
        s\<lparr>d_udp_reassembler := Some (new_reassembler (d_listener s)),
          calls := calls s @ [NewUdp (d_listener s)]\<rparr>
      else if \<not> en \<and> d_udp_reassembler s \<noteq> None then
        s\<lparr>d_udp_reassembler := None, calls := calls s @ [DeleteUdp]\<rparr>
      else s)"

text \<open>The constructor: the member initialisers, then the two calls of its body.\<close>

definition pcap_reader_t :: "listener \<Rightarrow> pcap_reader" where
  "pcap_reader_t l =
     enable_udp_reassembly True
       (enable_tcp_reassembly True
          \<lparr>d_pcap = None, d_bpf = None, d_linktype = None, d_listener = l,
           d_tcp_reassembler = None, d_udp_reassembler = None, calls = []\<rparr>)"

subsection \<open>The per-frame callback\<close>

text \<open>
  What the collaborators do during one invocation of \<^verbatim>\<open>handle_packet\<close>:
  the packet \<^verbatim>\<open>claim()\<close> returns; what \<^verbatim>\<open>packet_t::init\<close> leaves in \<^verbatim>\<open>must_copy\<close> (it is
  handed the address of the flag) and whether it throws or parses a layer stack with a
  time stamp; and for every other call whether it throws.
  The layer stack is listed outermost layer first, so the top layer is the last one.
\<close>

record parsed =
  layers :: "layer_type list"
  ts_sec :: int

record callback_env =
  claimed :: packet_ptr
  init_must_copy :: bool
  init_outcome :: "exn + parsed"
  tcp_set_now_raises :: "exn option"
  udp_set_now_raises :: "exn option"
  accept_raises :: "exn option"
  tcp_process_raises :: "exn option"
  udp_process_raises :: "exn option"
  accept_error_raises :: "exn option"
  release_raises :: "exn option"
  copy_data_raises :: "exn option"

text \<open>
  Modelled from the spec: \<^verbatim>\<open>packet_t::layer(n)\<close> is declared with the packet class, outside
  this source file. By the spec a negative index counts from the top of the stack; as
  the callback tests its result, a layer that does not exist is the null pointer.
\<close>

definition layer :: "layer_type list \<Rightarrow> int \<Rightarrow> layer_type option" where
  "layer ls n =
     (let k = int (length ls); j = (if n < 0 then k + n else n)
      in if 0 \<le> j \<and> j < k then Some (ls ! nat j) else None)"

text \<open>Lines 183 to 196: the choice of the receiver.\<close>

definition route :: "callback_env \<Rightarrow> packet_ptr \<Rightarrow> layer_type list \<Rightarrow> exn stmt" where
  "route c packet ls s =
     (let top = layer ls (- 1); second = layer ls (- 2) in
      if top = None \<or> second = None then
        extcall (Accept (d_listener s) packet) (accept_raises c) s
      else if d_tcp_reassembler s \<noteq> None \<and>
              (top = Some layer_tcp \<or> (top = Some layer_data \<and> second = Some layer_tcp)) then
        tcp_call (Process packet) (tcp_process_raises c) s
      else if d_udp_reassembler s \<noteq> None \<and>
              (top = Some layer_udp \<or> (top = Some layer_data \<and> second = Some layer_udp)) then
        udp_call (Process packet) (udp_process_raises c) s
      else
        extcall (Accept (d_listener s) packet) (accept_raises c) s)"

text \<open>Lines 175 to 196: the body of the \<^verbatim>\<open>try\<close> block.\<close>

definition try_block ::
  "callback_env \<Rightarrow> packet_ptr \<Rightarrow> pcap_pkthdr \<Rightarrow> u_char list \<Rightarrow> exn stmt" where
  "try_block c packet hdr data s =
     (case init_outcome c of
        Inl e \<Rightarrow> extcall (Init packet (d_linktype s) hdr data) (Some e) s
      | Inr p \<Rightarrow>
          seq (extcall (Init packet (d_linktype s) hdr data) None)
            (seq (\<lambda>s. if d_tcp_reassembler s \<noteq> None
                       then tcp_call (SetNow (ts_sec p)) (tcp_set_now_raises c) s
                       else skip s)
               (seq (\<lambda>s. if d_udp_reassembler s \<noteq> None
                          then udp_call (SetNow (ts_sec p)) (udp_set_now_raises c) s
                          else skip s)
                  (route c packet (layers p)))) s)"

text \<open>
  The two handlers. The first parameter is the build option \<^verbatim>\<open>UNKNOWN_LAYER_AS_ERROR\<close>.
\<close>

definition handlers :: "bool \<Rightarrow> callback_env \<Rightarrow> packet_ptr \<Rightarrow> exn \<Rightarrow> exn stmt" where
  "handlers unknown_layer_as_error c packet e s =
     (case e of
        unknown_layer_t msg \<Rightarrow>
          if unknown_layer_as_error
          then extcall (AcceptError (d_listener s) packet msg) (accept_error_raises c) s
          else extcall (Release packet) (release_raises c) s
      | std_exception msg \<Rightarrow>
          extcall (AcceptError (d_listener s) packet msg) (accept_error_raises c) s)"

text \<open>
  \<^verbatim>\<open>handle_packet\<close>. The flag \<^verbatim>\<open>must_copy\<close> starts true and only \<^verbatim>\<open>init\<close>, the first
  statement of the \<^verbatim>\<open>try\<close> block, is given its address, so after the block it holds what
  \<^verbatim>\<open>init\<close> left in it. Lines 210 and 211 are \<open>copy_if_borrowed\<close>.
\<close>

definition copy_if_borrowed :: "callback_env \<Rightarrow> packet_ptr \<Rightarrow> bool \<Rightarrow> exn stmt" where
  "copy_if_borrowed c packet must_copy =
     (if must_copy then extcall (CopyData packet) (copy_data_raises c) else skip)"

definition handle_packet ::
  "bool \<Rightarrow> callback_env \<Rightarrow> pcap_pkthdr \<Rightarrow> u_char list \<Rightarrow> exn stmt" where
  "handle_packet unknown_layer_as_error c hdr data s =
     (let packet = claimed c;
          s0 = s\<lparr>calls := calls s @ [Claim packet]\<rparr>;
          must_copy = init_must_copy c
      in case try_block c packet hdr data s0 of
           (Inl e, s1) \<Rightarrow>
             seq (handlers unknown_layer_as_error c packet e)
                 (copy_if_borrowed c packet must_copy) s1
         | (Inr u, s1) \<Rightarrow> copy_if_borrowed c packet must_copy s1)"

subsection \<open>The capture session\<close>

text \<open>
  What libpcap and the listener do during one operation on the session:
  the answer of \<^verbatim>\<open>pcap_open_offline\<close> or \<^verbatim>\<open>pcap_open_live\<close> (the text left in \<^verbatim>\<open>errbuf\<close>, or a
  handle), the return values of \<^verbatim>\<open>pcap_compile\<close>, \<^verbatim>\<open>pcap_setfilter\<close>, \<^verbatim>\<open>pcap_geterr\<close>,
  \<^verbatim>\<open>pcap_datalink\<close> and of the accessor \<^verbatim>\<open>snaplen()\<close>, whether \<^verbatim>\<open>begin_capture\<close> throws, the
  frames \<^verbatim>\<open>pcap_dispatch\<close> hands to the callback (each with what the collaborators do
  during that invocation) and the value \<^verbatim>\<open>pcap_dispatch\<close> returns.
  A libpcap function is C code: it reports through its return value and never throws.
\<close>

record pcap_env =
  open_result :: "string + pcap_t"
  compile_rc :: int
  setfilter_rc :: int
  geterr :: string
  datalink :: int
  snapshot :: int
  begin_capture_raises :: "exn option"
  frames :: "(callback_env \<times> pcap_pkthdr \<times> u_char list) list"
  dispatch_rc :: int

definition pcapcall :: "event \<Rightarrow> exn stmt" where
  "pcapcall ev = extcall ev None"

definition quoted :: "string \<Rightarrow> string" where
  "quoted x = [CHR 0x27] @ x @ [CHR 0x27]"

definition set_bpf :: "pcap_env \<Rightarrow> string \<Rightarrow> exn stmt" where
  "set_bpf env bpf s =
     (if bpf = [] then skip s
      else
        seq (pcapcall (PcapCompile (d_pcap s) bpf))
          (\<lambda>s. if compile_rc env < 0 then
                  throw (format_exception
                    (''Could not compile bpf filter '' @ quoted bpf @ '', '' @ geterr env)) s
                else
                  seq (pcapcall (PcapSetfilter (d_pcap s)))
                    (\<lambda>s. if setfilter_rc env < 0 then
                            throw (format_exception
                              (''Could not activate bpf filter '' @ quoted bpf @ '', '' @
                               geterr env)) s
                          else skip s)
                    (s\<lparr>d_bpf := Some bpf\<rparr>)) s)"

text \<open>
  Lines 76 to 78 and 99 to 101, which \<^verbatim>\<open>open_file\<close> and \<^verbatim>\<open>open_live_capture\<close> share: the link
  type is read and the listener is told. The accessor \<^verbatim>\<open>linktype()\<close> reads \<^verbatim>\<open>d_linktype\<close>.
\<close>

definition announce :: "pcap_env \<Rightarrow> string \<Rightarrow> exn stmt" where
  "announce env name s =
     seq (pcapcall (PcapDatalink (d_pcap s)))
       (\<lambda>s. let s' = s\<lparr>d_linktype := Some (datalink env)\<rparr>
             in extcall (BeginCapture (d_listener s') name (d_linktype s') (snapshot env))
                  (begin_capture_raises env) s') s"

definition open_file :: "pcap_env \<Rightarrow> string \<Rightarrow> string \<Rightarrow> exn stmt" where
  "open_file env fname bpf s =
     (if d_pcap s \<noteq> None then
        throw (format_exception ''Cannot open pcap while already busy'') s
      else
        (case open_result env of
           Inl errbuf \<Rightarrow>
             throw (format_exception
                      (''Could not open pcap '' @ quoted fname @ '', '' @ errbuf))
               (s\<lparr>d_pcap := None, calls := calls s @ [PcapOpenOffline fname]\<rparr>)
         | Inr h \<Rightarrow>
             seq (set_bpf env bpf) (announce env fname)
               (s\<lparr>d_pcap := Some h, calls := calls s @ [PcapOpenOffline fname]\<rparr>)))"

definition close_file :: "exn stmt" where
  "close_file s =
     (if d_pcap s = None then
        throw (format_exception ''Cannot close pcap without opened pcap'') s
      else skip (s\<lparr>d_pcap := None, calls := calls s @ [PcapClose (d_pcap s)]\<rparr>))"

definition open_live_capture :: "pcap_env \<Rightarrow> string \<Rightarrow> bool \<Rightarrow> string \<Rightarrow> exn stmt" where
  "open_live_capture env device promiscuous bpf s =
     (case open_result env of
        Inl errbuf \<Rightarrow>
          throw (format_exception (''Could not capture '' @ quoted device @ '', '' @ errbuf))
            (s\<lparr>d_pcap := None,
               calls := calls s @ [PcapOpenLive device 65536 promiscuous 1000]\<rparr>)
      | Inr h \<Rightarrow>
          seq (set_bpf env bpf) (announce env device)
            (s\<lparr>d_pcap := Some h,
               calls := calls s @ [PcapOpenLive device 65536 promiscuous 1000]\<rparr>))"

definition close_live_capture :: "pcap_reader \<Rightarrow> pcap_reader" where
  "close_live_capture s = s\<lparr>d_pcap := None, calls := calls s @ [PcapClose (d_pcap s)]\<rparr>"

text \<open>
  \<^verbatim>\<open>pcap_dispatch\<close> calls the handler once per frame, in order. An exception that leaves
  the handler leaves \<^verbatim>\<open>pcap_dispatch\<close> too, and the frames after it are not delivered.
\<close>

fun dispatch ::
  "bool \<Rightarrow> (callback_env \<times> pcap_pkthdr \<times> u_char list) list \<Rightarrow> exn stmt" where
  "dispatch unknown_layer_as_error [] s = (Inr (), s)"
| "dispatch unknown_layer_as_error ((c, hdr, data) # fs) s =
     (case handle_packet unknown_layer_as_error c hdr data s of
        (Inl e, s') \<Rightarrow> (Inl e, s')
      | (Inr u, s') \<Rightarrow> dispatch unknown_layer_as_error fs s')"

definition lift :: "exn stmt \<Rightarrow> abrupt stmt" where
  "lift m s = (case m s of (Inl e, s') \<Rightarrow> (Inl (Throw e), s') | (Inr u, s') \<Rightarrow> (Inr (), s'))"

definition read_packets :: "bool \<Rightarrow> pcap_env \<Rightarrow> abrupt stmt" where
  "read_packets unknown_layer_as_error env s =
     (if d_pcap s = None then (Inl Abort, s)
      else
        seq (lift (seq (pcapcall (PcapDispatch (d_pcap s)))
                       (dispatch unknown_layer_as_error (frames env))))
          (\<lambda>s. if dispatch_rc env = - 1 then
                  throw (Throw (format_exception (''Pcap reader failed, '' @ geterr env))) s
                else skip s) s)"

text \<open>
  The destructor of \<^verbatim>\<open>pcap_close_guard_t\<close>, which holds a reference to \<^verbatim>\<open>d_pcap\<close>.
\<close>

definition pcap_close_guard_dtor :: "pcap_reader \<Rightarrow> pcap_reader" where
  "pcap_close_guard_dtor s =
     (if d_pcap s \<noteq> None
      then s\<lparr>d_pcap := None, calls := calls s @ [PcapClose (d_pcap s)]\<rparr>
      else s)"

text \<open>
  \<^verbatim>\<open>read_file\<close>. The guard is constructed after the first check, so its destructor runs
  when the two calls below it return or throw, and not when the check throws.
\<close>

definition read_file :: "bool \<Rightarrow> pcap_env \<Rightarrow> string \<Rightarrow> string \<Rightarrow> abrupt stmt" where
  "read_file unknown_layer_as_error env fname bpf s =
     (if d_pcap s \<noteq> None then
        throw (Throw (format_exception ''Cannot read pcap while already busy'')) s
      else
        (case seq (lift (open_file env fname bpf))
                  (read_packets unknown_layer_as_error env) s of
           (Inl Abort, s') \<Rightarrow> (Inl Abort, s')
         | (r, s') \<Rightarrow> (r, pcap_close_guard_dtor s')))"

subsection \<open>Reading the record of calls\<close>

text \<open>The calls made between two states of the object.\<close>

definition new_calls :: "pcap_reader \<Rightarrow> pcap_reader \<Rightarrow> event list" where
  "new_calls s s' = drop (length (calls s)) (calls s')"

text \<open>
  The frame of the callback: a statement of \<^verbatim>\<open>handle_packet\<close> adds calls, may tell a
  reassembler something, and leaves the handle, the listener, the link type and the
  presence of each reassembler as they are. A statement of the session keeps less: the
  handle and the calls already made.
\<close>

definition extends :: "pcap_reader \<Rightarrow> pcap_reader \<Rightarrow> bool" where
  "extends s s' \<longleftrightarrow>
     prefix (calls s) (calls s') \<and> d_pcap s' = d_pcap s \<and> d_listener s' = d_listener s \<and>
     d_linktype s' = d_linktype s \<and>
     (d_tcp_reassembler s' = None \<longleftrightarrow> d_tcp_reassembler s = None) \<and>
     (d_udp_reassembler s' = None \<longleftrightarrow> d_udp_reassembler s = None)"

definition keeps_handle :: "pcap_reader \<Rightarrow> pcap_reader \<Rightarrow> bool" where
  "keeps_handle s s' \<longleftrightarrow> prefix (calls s) (calls s') \<and> d_pcap s' = d_pcap s"

text \<open>Kinds of calls: a hand-off to the TCP reassembler, a direct call on the listener.\<close>

fun is_tcp_process :: "event \<Rightarrow> bool" where
  "is_tcp_process (Tcp (Process p)) = True"
| "is_tcp_process ev = False"

fun is_delivery :: "event \<Rightarrow> bool" where
  "is_delivery (Accept l p) = True"
| "is_delivery (AcceptError l p msg) = True"
| "is_delivery ev = False"


subsection \<open>Concrete inputs\<close>

text \<open>
  A frame header, a callback in which no collaborator throws except possibly \<^verbatim>\<open>init\<close>,
  a successful parse with a given layer stack, a libpcap that opens handle 1 and
  delivers the given frames without error, and a reader on which a live capture with
  handle 7 has been opened.
\<close>

definition hdr0 :: pcap_pkthdr where
  "hdr0 = \<lparr>tv_sec = 0, tv_usec = 0, caplen = 0, len = 0\<rparr>"

definition frame_with :: "bool \<Rightarrow> exn + parsed \<Rightarrow> callback_env" where
  "frame_with mc outcome =
     \<lparr>claimed = 0, init_must_copy = mc, init_outcome = outcome,
      tcp_set_now_raises = None, udp_set_now_raises = None, accept_raises = None,
      tcp_process_raises = None, udp_process_raises = None, accept_error_raises = None,
      release_raises = None, copy_data_raises = None\<rparr>"

definition stack :: "layer_type list \<Rightarrow> exn + parsed" where
  "stack ls = Inr \<lparr>layers = ls, ts_sec = 0\<rparr>"

definition env0 :: "(callback_env \<times> pcap_pkthdr \<times> u_char list) list \<Rightarrow> pcap_env" where
  "env0 fs =
     \<lparr>open_result = Inr 1, compile_rc = 0, setfilter_rc = 0, geterr = [], datalink = 1,
      snapshot = 65535, begin_capture_raises = None, frames = fs,
      dispatch_rc = int (length fs)\<rparr>"

definition live_session :: pcap_reader where
  "live_session =
     snd (open_live_capture ((env0 [])\<lparr>open_result := Inr 7\<rparr>) ''eth0'' False []
            (pcap_reader_t 0))"

text \<open>The live session after a frame with TCP on top has been handled.\<close>

definition handed_over :: pcap_reader where
  "handed_over =
     snd (handle_packet False (frame_with False (stack [layer_other, layer_tcp])) hdr0 []
            live_session)"

section \<open>Properties\<close>

subsection \<open>Statements and their frame\<close>

lemma extends_refl [simp]: "extends s s"
  by (simp add: extends_def)

lemma extends_trans: "extends s s1 \<Longrightarrow> extends s1 s2 \<Longrightarrow> extends s s2"
  unfolding extends_def by (metis prefix_order.order_trans)

lemma extends_log [simp]: "extends s (s\<lparr>calls := calls s @ evs\<rparr>)"
  by (simp add: extends_def)

lemma seq_cases:
  assumes "seq m k s = (r, s')"
  obtains (stop) e where "m s = (Inl e, s')" and "r = Inl e"
        | (go) s1 where "m s = (Inr (), s1)" and "k s1 = (r, s')"
  using assms by (auto simp: seq_def split: prod.splits sum.splits)


lemma extcall_extends: "extcall ev raised s = (r, s') \<Longrightarrow> extends s s'"
  by (auto simp: extcall_def)

lemma tcp_call_extends: "tcp_call rc raised s = (r, s') \<Longrightarrow> extends s s'"
  by (auto simp: tcp_call_def extcall_def extends_def)

lemma udp_call_extends: "udp_call rc raised s = (r, s') \<Longrightarrow> extends s s'"
  by (auto simp: udp_call_def extcall_def extends_def)

lemma skip_extends: "skip s = (r, s') \<Longrightarrow> extends s s'"
  by (auto simp: skip_def)

lemma seq_extends:
  assumes "seq m k s = (r, s')"
    and "\<And>s r s'. m s = (r, s') \<Longrightarrow> extends s s'"
    and "\<And>s r s'. k s = (r, s') \<Longrightarrow> extends s s'"
  shows "extends s s'"
  using assms(1)
proof (cases rule: seq_cases)
  case (stop e)
  then show ?thesis using assms(2) by blast
next
  case (go s1)
  then show ?thesis using assms(2,3) extends_trans by blast
qed

lemma route_extends: "route c p ls s = (r, s') \<Longrightarrow> extends s s'"
  unfolding route_def Let_def
  by (auto split: if_splits dest: extcall_extends tcp_call_extends udp_call_extends)

lemma try_block_extends:
  assumes "try_block c p hdr data s = (r, s')"
  shows "extends s s'"
proof (cases "init_outcome c")
  case (Inl e)
  with assms show ?thesis by (auto simp: try_block_def dest: extcall_extends)
next
  case (Inr pk)
  with assms have "seq (extcall (Init p (d_linktype s) hdr data) None)
            (seq (\<lambda>s. if d_tcp_reassembler s \<noteq> None
                       then tcp_call (SetNow (ts_sec pk)) (tcp_set_now_raises c) s
                       else skip s)
               (seq (\<lambda>s. if d_udp_reassembler s \<noteq> None
                          then udp_call (SetNow (ts_sec pk)) (udp_set_now_raises c) s
                          else skip s)
                  (route c p (layers pk)))) s = (r, s')"
    by (simp add: try_block_def)
  then show ?thesis
    by (rule seq_extends)
       (auto elim!: seq_extends
             dest: extcall_extends tcp_call_extends udp_call_extends skip_extends route_extends
             split: if_splits)
qed

lemma handlers_extends: "handlers u c p e s = (r, s') \<Longrightarrow> extends s s'"
  unfolding handlers_def
  by (auto split: exn.splits if_splits dest: extcall_extends)

subsection \<open>The callback\<close>

lemma handle_packet_unfold:
  "handle_packet u c hdr data s =
     (case try_block c (claimed c) hdr data (s\<lparr>calls := calls s @ [Claim (claimed c)]\<rparr>) of
        (Inl e, s1) \<Rightarrow>
          seq (handlers u c (claimed c) e) (copy_if_borrowed c (claimed c) (init_must_copy c)) s1
      | (Inr v, s1) \<Rightarrow> copy_if_borrowed c (claimed c) (init_must_copy c) s1)"
  by (simp add: handle_packet_def Let_def)



lemma extends_claim:
  "extends (s\<lparr>calls := calls s @ [ev]\<rparr>) s2 \<Longrightarrow> extends s s2"
  by (rule extends_trans[OF extends_log])

lemma copy_extends: "copy_if_borrowed c p mc s = (r, s') \<Longrightarrow> extends s s'"
  by (auto simp: copy_if_borrowed_def dest: extcall_extends skip_extends split: if_splits)

lemma handle_packet_extends:
  assumes "handle_packet u c hdr data s = (r, s')"
  shows "extends (s\<lparr>calls := calls s @ [Claim (claimed c)]\<rparr>) s'"
proof -
  let ?s0 = "s\<lparr>calls := calls s @ [Claim (claimed c)]\<rparr>"
  obtain r1 s1 where t: "try_block c (claimed c) hdr data ?s0 = (r1, s1)"
    by (cases "try_block c (claimed c) hdr data ?s0")
  then have e1: "extends ?s0 s1" by (rule try_block_extends)
  show ?thesis
  proof (cases r1)
    case (Inl e)
    with t assms have "seq (handlers u c (claimed c) e) (copy_if_borrowed c (claimed c) (init_must_copy c)) s1 = (r, s')"
      by (simp add: handle_packet_unfold)
    then have "extends s1 s'"
      by (rule seq_extends) (auto dest: handlers_extends copy_extends)
    with e1 show ?thesis by (rule extends_trans)
  next
    case (Inr v)
    with t assms have "copy_if_borrowed c (claimed c) (init_must_copy c) s1 = (r, s')"
      by (simp add: handle_packet_unfold)
    then have "extends s1 s'" by (rule copy_extends)
    with e1 show ?thesis by (rule extends_trans)
  qed
qed







lemma layer_top: "layer ls (- 1) = (if ls = [] then None else Some (last ls))"
  by (cases ls rule: rev_cases) (simp_all add: layer_def Let_def nth_append)

lemma layer_second:
  "layer ls (- 2) = (if length ls < 2 then None else Some (ls ! (length ls - 2)))"
proof -
  have "nat (int (length ls) - 2) = length ls - 2" by simp
  then show ?thesis by (simp add: layer_def Let_def)
qed

lemma second_exists: "2 \<le> length ls \<Longrightarrow> layer ls (- 2) \<noteq> None"
  by (simp add: layer_second)

lemma top_exists: "2 \<le> length ls \<Longrightarrow> layer ls (- 1) \<noteq> None"
  by (auto simp: layer_top)

lemma route_tcp:
  assumes "2 \<le> length ls"
    and "layer ls (- 1) = Some layer_tcp \<or>
         (layer ls (- 1) = Some layer_data \<and> layer ls (- 2) = Some layer_tcp)"
    and "d_tcp_reassembler s \<noteq> None"
  shows "route c p ls s = tcp_call (Process p) (tcp_process_raises c) s"
  using assms second_exists[OF assms(1)] top_exists[OF assms(1)]
  by (auto simp: route_def Let_def)

subsection \<open>The session\<close>

lemma keeps_handle_refl [simp]: "keeps_handle s s"
  by (simp add: keeps_handle_def)

lemma keeps_handle_trans: "keeps_handle s s1 \<Longrightarrow> keeps_handle s1 s2 \<Longrightarrow> keeps_handle s s2"
  unfolding keeps_handle_def by (metis prefix_order.order_trans)

lemma extends_keeps_handle: "extends s s' \<Longrightarrow> keeps_handle s s'"
  by (simp add: extends_def keeps_handle_def)

lemma seq_keeps_handle:
  assumes "seq m k s = (r, s')"
    and "\<And>s r s'. m s = (r, s') \<Longrightarrow> keeps_handle s s'"
    and "\<And>s r s'. k s = (r, s') \<Longrightarrow> keeps_handle s s'"
  shows "keeps_handle s s'"
  using assms(1)
proof (cases rule: seq_cases)
  case (stop e)
  then show ?thesis using assms(2) by blast
next
  case (go s1)
  then show ?thesis using assms(2,3) keeps_handle_trans by blast
qed

lemma pcapcall_result: "pcapcall ev s = (Inr (), s\<lparr>calls := calls s @ [ev]\<rparr>)"
  by (simp add: pcapcall_def extcall_def)

lemma set_bpf_keeps_handle:
  assumes "set_bpf env bpf s = (r, s')"
  shows "keeps_handle s s'"
  using assms
  by (auto simp: set_bpf_def seq_def pcapcall_result skip_def throw_def keeps_handle_def
           split: if_splits)

lemma announce_keeps_handle:
  assumes "announce env name s = (r, s')"
  shows "keeps_handle s s'"
  using assms
  by (auto simp: announce_def seq_def pcapcall_result extcall_def Let_def keeps_handle_def)

lemma dispatch_extends: "dispatch u fs s = (r, s') \<Longrightarrow> extends s s'"
proof (induction fs arbitrary: s)
  case Nil
  then show ?case by simp
next
  case (Cons f fs)
  obtain c hdr data where f: "f = (c, hdr, data)" by (cases f)
  obtain r1 s1 where h: "handle_packet u c hdr data s = (r1, s1)"
    by (cases "handle_packet u c hdr data s")
  then have e1: "extends s s1"
    using handle_packet_extends extends_claim by blast
  show ?case
  proof (cases r1)
    case (Inl e)
    with Cons.prems f h e1 show ?thesis by simp
  next
    case (Inr v)
    with Cons.prems f h have "dispatch u fs s1 = (r, s')" by simp
    then have "extends s1 s'" by (rule Cons.IH)
    with e1 show ?thesis by (rule extends_trans)
  qed
qed

lemma read_packets_keeps_handle:
  assumes "read_packets u env s = (r, s')"
  shows "keeps_handle s s'"
proof (cases "d_pcap s = None")
  case True
  with assms show ?thesis by (simp add: read_packets_def)
next
  case False
  obtain r1 s1 where d: "dispatch u (frames env) (s\<lparr>calls := calls s @ [PcapDispatch (d_pcap s)]\<rparr>)
                          = (r1, s1)"
    by (cases "dispatch u (frames env) (s\<lparr>calls := calls s @ [PcapDispatch (d_pcap s)]\<rparr>)")
  then have "keeps_handle s s1"
    using dispatch_extends extends_claim extends_keeps_handle by blast
  moreover have "s' = s1"
    using assms False d
    by (auto simp: read_packets_def seq_def lift_def pcapcall_result throw_def skip_def
             split: sum.splits if_splits)
  ultimately show ?thesis by simp
qed

lemma read_packets_no_abort:
  assumes "d_pcap s \<noteq> None"
  shows "fst (read_packets u env s) \<noteq> Inl Abort"
  using assms
  by (auto simp: read_packets_def seq_def lift_def throw_def skip_def
           split: prod.splits sum.splits)

lemma guard_closes:
  assumes "d_pcap s = Some h"
  shows "pcap_close_guard_dtor s = s\<lparr>d_pcap := None, calls := calls s @ [PcapClose (Some h)]\<rparr>"
  using assms by (simp add: pcap_close_guard_dtor_def)

lemma read_file_guarded:
  assumes "d_pcap s = None"
    and "seq (lift (open_file env f b)) (read_packets u env) s = (r, s1)"
    and "r \<noteq> Inl Abort"
  shows "read_file u env f b s = (r, pcap_close_guard_dtor s1)"
proof (cases r)
  case (Inl a)
  with assms(3) obtain e where "a = Throw e" by (cases a) auto
  with Inl assms(1,2) show ?thesis by (simp add: read_file_def)
next
  case (Inr v)
  with assms(1,2) show ?thesis by (simp add: read_file_def)
qed

lemma read_file_open_fails:
  assumes "d_pcap s = None" and "open_result env = Inl errbuf"
  shows "read_file u env f b s =
           (Inl (Throw (format_exception (''Could not open pcap '' @ quoted f @ '', '' @ errbuf))),
            s\<lparr>d_pcap := None, calls := calls s @ [PcapOpenOffline f]\<rparr>)"
proof -
  have "seq (lift (open_file env f b)) (read_packets u env) s =
          (Inl (Throw (format_exception (''Could not open pcap '' @ quoted f @ '', '' @ errbuf))),
           s\<lparr>d_pcap := None, calls := calls s @ [PcapOpenOffline f]\<rparr>)"
    using assms by (simp add: seq_def lift_def open_file_def throw_def)
  from read_file_guarded[OF assms(1) this] show ?thesis
    by (simp add: pcap_close_guard_dtor_def)
qed

lemma read_file_opened:
  assumes "d_pcap s = None" and "open_result env = Inr h"
  obtains s2 where "keeps_handle (s\<lparr>d_pcap := Some h, calls := calls s @ [PcapOpenOffline f]\<rparr>) s2"
    and "read_file u env f b s =
           (fst (read_file u env f b s),
            s2\<lparr>d_pcap := None, calls := calls s2 @ [PcapClose (Some h)]\<rparr>)"
    and "fst (read_file u env f b s) \<noteq> Inl Abort"
proof -
  let ?sA = "s\<lparr>d_pcap := Some h, calls := calls s @ [PcapOpenOffline f]\<rparr>"
  obtain r1 s1 where o: "seq (set_bpf env b) (announce env f) ?sA = (r1, s1)"
    by (cases "seq (set_bpf env b) (announce env f) ?sA")
  then have k1: "keeps_handle ?sA s1"
    by (rule seq_keeps_handle) (auto dest: set_bpf_keeps_handle announce_keeps_handle)
  then have h1: "d_pcap s1 = Some h" by (simp add: keeps_handle_def)
  from o assms have of: "open_file env f b s = (r1, s1)" by (simp add: open_file_def)
  show ?thesis
  proof (cases r1)
    case (Inl e)
    with of have "seq (lift (open_file env f b)) (read_packets u env) s = (Inl (Throw e), s1)"
      by (simp add: seq_def lift_def)
    from read_file_guarded[OF assms(1) this]
    have "read_file u env f b s =
            (Inl (Throw e), s1\<lparr>d_pcap := None, calls := calls s1 @ [PcapClose (Some h)]\<rparr>)"
      by (simp add: guard_closes[OF h1])
    with k1 show ?thesis by (intro that[of s1]) simp_all
  next
    case (Inr v)
    obtain r2 s2 where rp: "read_packets u env s1 = (r2, s2)"
      by (cases "read_packets u env s1")
    then have k2: "keeps_handle s1 s2" by (rule read_packets_keeps_handle)
    with h1 have h2: "d_pcap s2 = Some h" by (simp add: keeps_handle_def)
    have na: "r2 \<noteq> Inl Abort"
      using read_packets_no_abort[of s1 u env] h1 rp by simp
    from of Inr rp have "seq (lift (open_file env f b)) (read_packets u env) s = (r2, s2)"
      by (simp add: seq_def lift_def)
    from read_file_guarded[OF assms(1) this na]
    have "read_file u env f b s =
            (r2, s2\<lparr>d_pcap := None, calls := calls s2 @ [PcapClose (Some h)]\<rparr>)"
      by (simp add: guard_closes[OF h2])
    with keeps_handle_trans[OF k1 k2] na show ?thesis by (intro that[of s2]) simp_all
  qed
qed

lemma read_file_leaves_closed:
  assumes "d_pcap s = None"
  shows "d_pcap (snd (read_file u env f b s)) = None"
proof (cases "open_result env")
  case (Inl errbuf)
  then show ?thesis by (simp add: read_file_open_fails[OF assms])
next
  case (Inr h)
  from read_file_opened[OF assms Inr, of f u b] obtain s2 where
    "read_file u env f b s =
           (fst (read_file u env f b s),
            s2\<lparr>d_pcap := None, calls := calls s2 @ [PcapClose (Some h)]\<rparr>)"
    by blast
  then have "snd (read_file u env f b s) = s2\<lparr>d_pcap := None, calls := calls s2 @ [PcapClose (Some h)]\<rparr>"
    by (metis snd_conv)
  then show ?thesis by simp
qed

lemma read_file_first_call:
  assumes "d_pcap s = None"
  shows "take 1 (new_calls s (snd (read_file u env f b s))) = [PcapOpenOffline f]"
proof (cases "open_result env")
  case (Inl errbuf)
  then show ?thesis by (simp add: read_file_open_fails[OF assms] new_calls_def)
next
  case (Inr h)
  from read_file_opened[OF assms Inr, of f u b] obtain s2 where
    k: "keeps_handle (s\<lparr>d_pcap := Some h, calls := calls s @ [PcapOpenOffline f]\<rparr>) s2" and
    "read_file u env f b s =
           (fst (read_file u env f b s),
            s2\<lparr>d_pcap := None, calls := calls s2 @ [PcapClose (Some h)]\<rparr>)"
    by blast
  then have e: "snd (read_file u env f b s) = s2\<lparr>d_pcap := None, calls := calls s2 @ [PcapClose (Some h)]\<rparr>"
    by (metis snd_conv)
  from k obtain evs where "calls s2 = (calls s @ [PcapOpenOffline f]) @ evs"
    by (auto simp: keeps_handle_def prefix_def)
  then show ?thesis by (simp add: e new_calls_def)
qed

lemma read_file_last_call:
  assumes "d_pcap s = None" and "open_result env = Inr h"
  shows "last (new_calls s (snd (read_file u env f b s))) = PcapClose (Some h)"
proof -
  from read_file_opened[OF assms, of f u b] obtain s2 where
    k: "keeps_handle (s\<lparr>d_pcap := Some h, calls := calls s @ [PcapOpenOffline f]\<rparr>) s2" and
    "read_file u env f b s =
           (fst (read_file u env f b s),
            s2\<lparr>d_pcap := None, calls := calls s2 @ [PcapClose (Some h)]\<rparr>)"
    by blast
  then have e: "snd (read_file u env f b s) = s2\<lparr>d_pcap := None, calls := calls s2 @ [PcapClose (Some h)]\<rparr>"
    by (metis snd_conv)
  from k obtain evs where "calls s2 = (calls s @ [PcapOpenOffline f]) @ evs"
    by (auto simp: keeps_handle_def prefix_def)
  then show ?thesis by (simp add: e new_calls_def)
qed

lemma read_file_no_abort:
  assumes "d_pcap s = None"
  shows "fst (read_file u env f b s) \<noteq> Inl Abort"
proof (cases "open_result env")
  case (Inl errbuf)
  then show ?thesis by (simp add: read_file_open_fails[OF assms])
next
  case (Inr h)
  from read_file_opened[OF assms Inr, of f u b] show ?thesis by blast
qed

subsection \<open>Evaluation on concrete inputs\<close>

lemmas run =
  frame_with_def stack_def hdr0_def env0_def live_session_def layer_def
  pcap_reader_t_def enable_tcp_reassembly_def enable_udp_reassembly_def new_reassembler_def
  handle_packet_unfold try_block_def route_def handlers_def copy_if_borrowed_def
  seq_def skip_def throw_def extcall_def tcp_call_def udp_call_def pcapcall_def lift_def
  new_calls_def heard_def
  set_bpf_def announce_def open_file_def open_live_capture_def read_packets_def
  pcap_close_guard_dtor_def read_file_def format_exception_def

section \<open>The claims\<close>

subsection \<open>C1: borrowed data is copied before the callback returns\<close>



subsection \<open>C2: frames for the TCP reassembler\<close>

text \<open>
  Claim C2 says that every frame whose top layer is TCP, or data directly above TCP, is
  handed to the TCP reassembler exactly once while TCP reassembly is enabled, and that
  the listener is not called for it. The callback tests first whether the stack has two
  layers, and it answers an exception thrown by the reassembler through the listener.

  Claim C2, amended. For every frame that \<^verbatim>\<open>init\<close> parses into a stack of at least two
  layers whose top layer is TCP, or data directly above TCP, while TCP reassembly is
  enabled and the calls on the reassemblers for this frame (\<^verbatim>\<open>set_now\<close>, \<^verbatim>\<open>process\<close>) return,
  the callback calls \<^verbatim>\<open>process\<close> of the TCP reassembler exactly once, with the claimed
  packet, and calls neither \<^verbatim>\<open>accept\<close> nor \<^verbatim>\<open>accept_error\<close>.
\<close>

theorem tcp_frame_handed_to_tcp_reassembler:
  assumes "init_outcome c = Inr pk" and "2 \<le> length (layers pk)"
    and "layer (layers pk) (- 1) = Some layer_tcp \<or>
         (layer (layers pk) (- 1) = Some layer_data \<and> layer (layers pk) (- 2) = Some layer_tcp)"
    and "d_tcp_reassembler s \<noteq> None"
    and "tcp_set_now_raises c = None" and "udp_set_now_raises c = None"
    and "tcp_process_raises c = None"
  shows "filter is_tcp_process (new_calls s (snd (handle_packet u c hdr data s))) =
           [Tcp (Process (claimed c))] \<and>
         filter is_delivery (new_calls s (snd (handle_packet u c hdr data s))) = []"
proof -
  have r: "\<And>s. d_tcp_reassembler s \<noteq> None \<Longrightarrow>
             route c (claimed c) (layers pk) s =
             tcp_call (Process (claimed c)) None s"
    using route_tcp[OF assms(2,3)] assms(7) by simp
  show ?thesis
    using assms(1,4,5,6)
    by (cases "d_udp_reassembler s = None"; cases "init_must_copy c")
       (simp_all add: handle_packet_unfold try_block_def r copy_if_borrowed_def
                      seq_def skip_def extcall_def tcp_call_def udp_call_def new_calls_def)
qed

text \<open>A frame of three layers, data above TCP, on the live session.\<close>

theorem tcp_frame_handed_to_tcp_reassembler_witness:
  "init_outcome (frame_with False (stack [layer_other, layer_tcp, layer_data])) =
     Inr \<lparr>layers = [layer_other, layer_tcp, layer_data], ts_sec = 0\<rparr> \<and>
   2 \<le> length [layer_other, layer_tcp, layer_data] \<and>
   layer [layer_other, layer_tcp, layer_data] (- 1) = Some layer_data \<and>
   layer [layer_other, layer_tcp, layer_data] (- 2) = Some layer_tcp \<and>
   d_tcp_reassembler live_session \<noteq> None \<and>
   filter is_tcp_process
     (new_calls live_session
        (snd (handle_packet False (frame_with False (stack [layer_other, layer_tcp, layer_data]))
                hdr0 [] live_session))) = [Tcp (Process 0)] \<and>
   filter is_delivery
     (new_calls live_session
        (snd (handle_packet False (frame_with False (stack [layer_other, layer_tcp, layer_data]))
                hdr0 [] live_session))) = []"
proof -
  let ?c = "frame_with False (stack [layer_other, layer_tcp, layer_data])"
  let ?pk = "\<lparr>layers = [layer_other, layer_tcp, layer_data], ts_sec = 0\<rparr>"
  have a: "init_outcome ?c = Inr ?pk" by (simp add: frame_with_def stack_def)
  have b: "2 \<le> length (layers ?pk)" by simp
  have t: "layer [layer_other, layer_tcp, layer_data] (- 1) = Some layer_data"
    and t2: "layer [layer_other, layer_tcp, layer_data] (- 2) = Some layer_tcp"
    by (simp_all add: layer_def)
  then have d: "layer (layers ?pk) (- 1) = Some layer_tcp \<or>
         (layer (layers ?pk) (- 1) = Some layer_data \<and> layer (layers ?pk) (- 2) = Some layer_tcp)"
    by simp
  have e: "d_tcp_reassembler live_session \<noteq> None" by (simp add: run)
  have f: "tcp_set_now_raises ?c = None" "udp_set_now_raises ?c = None"
    "tcp_process_raises ?c = None" and p: "claimed ?c = 0"
    by (simp_all add: frame_with_def)
  from tcp_frame_handed_to_tcp_reassembler[OF a b d e f, of False hdr0 "[]"] a b t t2 e
  show ?thesis unfolding p by simp
qed

text \<open>
  The claim as it was stated fails on two frames, TCP reassembly being enabled. A frame
  whose only layer is TCP is passed to \<^verbatim>\<open>accept\<close> and the reassembler never sees it. A
  frame with TCP on top whose \<^verbatim>\<open>process\<close> throws is reported through \<^verbatim>\<open>accept_error\<close>.
\<close>

theorem tcp_frame_not_always_handed_over:
  "init_outcome (frame_with True (stack [layer_tcp])) = stack [layer_tcp] \<and>
   layer [layer_tcp] (- 1) = Some layer_tcp \<and>
   d_tcp_reassembler live_session \<noteq> None \<and>
   filter is_tcp_process
     (new_calls live_session
        (snd (handle_packet False (frame_with True (stack [layer_tcp])) hdr0 []
                live_session))) = [] \<and>
   filter is_delivery
     (new_calls live_session
        (snd (handle_packet False (frame_with True (stack [layer_tcp])) hdr0 []
                live_session))) = [Accept 0 0] \<and>
   init_outcome ((frame_with True (stack [layer_other, layer_tcp]))
                   \<lparr>tcp_process_raises := Some (std_exception ''stream'')\<rparr>) =
     stack [layer_other, layer_tcp] \<and>
   layer [layer_other, layer_tcp] (- 1) = Some layer_tcp \<and>
   filter is_delivery
     (new_calls live_session
        (snd (handle_packet False
                ((frame_with True (stack [layer_other, layer_tcp]))
                   \<lparr>tcp_process_raises := Some (std_exception ''stream'')\<rparr>) hdr0 []
                live_session))) = [AcceptError 0 0 ''stream'']"
  by (simp add: run)

subsection \<open>C3: no error of parsing or classification leaves the callback\<close>



subsection \<open>C4: \<^verbatim>\<open>read_file\<close> on an open session\<close>

text \<open>
  Claim C4. When a handle is open, \<^verbatim>\<open>read_file\<close> throws its "already busy" exception before
  it does anything else: no call is made and the object, the open session included, is
  what it was.
\<close>

theorem read_file_already_open:
  assumes "d_pcap s \<noteq> None"
  shows "read_file u env fname bpf s =
           (Inl (Throw (format_exception ''Cannot read pcap while already busy'')), s)"
  using assms by (simp add: read_file_def throw_def)

theorem read_file_already_open_witness:
  "d_pcap live_session \<noteq> None \<and>
   read_file False (env0 []) ''a.pcap'' [] live_session =
     (Inl (Throw (format_exception ''Cannot read pcap while already busy'')), live_session)"
proof -
  have a: "d_pcap live_session \<noteq> None" by (simp add: run)
  from read_file_already_open[OF a] a show ?thesis by blast
qed

subsection \<open>C5: \<^verbatim>\<open>open_live_capture\<close> on an open session\<close>

text \<open>
  Claim C5 says that \<^verbatim>\<open>open_live_capture\<close> refuses to run while a handle is open, as
  \<^verbatim>\<open>read_file\<close> and \<^verbatim>\<open>open_file\<close> do. It has no such test. On the reader whose live capture
  holds handle 7, a second \<^verbatim>\<open>open_live_capture\<close> returns normally: it opens the device,
  stores the new handle 1 over the old one and announces the capture; handle 7 is
  never closed.
\<close>

theorem open_live_capture_overwrites_open_handle:
  "d_pcap live_session = Some 7 \<and>
   fst (open_live_capture (env0 []) ''eth1'' False [] live_session) = Inr () \<and>
   d_pcap (snd (open_live_capture (env0 []) ''eth1'' False [] live_session)) = Some 1 \<and>
   new_calls live_session (snd (open_live_capture (env0 []) ''eth1'' False [] live_session)) =
     [PcapOpenLive ''eth1'' 65536 False 1000, PcapDatalink (Some 1),
      BeginCapture 0 ''eth1'' (Some 1) 65535]"
  by (simp add: run)

subsection \<open>C6: \<^verbatim>\<open>read_file\<close> twice in a row\<close>

text \<open>
  Claim C6 says that the second of two consecutive calls of \<^verbatim>\<open>read_file\<close> fails as already
  open and that the first session stays usable. The first call has closed its handle
  when it is left, so nothing is open when the second call begins.

  Claim C6, amended. When \<^verbatim>\<open>read_file\<close> is called twice in a row on a reader with no handle
  open, the first call leaves no handle open, however it ends, and the second call is
  not refused as already open: the first thing it does is to open its file.
\<close>

theorem second_read_file_opens_again:
  assumes "d_pcap s = None"
  shows "d_pcap (snd (read_file u env1 f1 b1 s)) = None \<and>
         take 1 (new_calls (snd (read_file u env1 f1 b1 s))
                   (snd (read_file u env2 f2 b2 (snd (read_file u env1 f1 b1 s))))) =
           [PcapOpenOffline f2]"
  using read_file_leaves_closed[OF assms] read_file_first_call
  by blast

theorem second_read_file_opens_again_witness:
  "d_pcap (pcap_reader_t 0) = None \<and>
   d_pcap (snd (read_file False (env0 []) ''a.pcap'' [] (pcap_reader_t 0))) = None \<and>
   take 1 (new_calls (snd (read_file False (env0 []) ''a.pcap'' [] (pcap_reader_t 0)))
             (snd (read_file False (env0 []) ''b.pcap'' []
                     (snd (read_file False (env0 []) ''a.pcap'' [] (pcap_reader_t 0)))))) =
     [PcapOpenOffline ''b.pcap'']"
proof -
  have a: "d_pcap (pcap_reader_t 0) = None" by (simp add: run)
  from second_read_file_opens_again[OF a] a show ?thesis by blast
qed

text \<open>
  The claim as it was stated fails on a new reader and a capture file without frames:
  both calls return normally, and after the first no handle is open.
\<close>

theorem read_file_twice_succeeds:
  "d_pcap (pcap_reader_t 0) = None \<and>
   fst (read_file False (env0 []) ''a.pcap'' [] (pcap_reader_t 0)) = Inr () \<and>
   d_pcap (snd (read_file False (env0 []) ''a.pcap'' [] (pcap_reader_t 0))) = None \<and>
   fst (read_file False (env0 []) ''a.pcap'' []
          (snd (read_file False (env0 []) ''a.pcap'' [] (pcap_reader_t 0)))) = Inr ()"
  by (simp add: run)

subsection \<open>C7: \<^verbatim>\<open>read_file\<close> closes the handle on every exit\<close>

text \<open>
  Claim C7. A call of \<^verbatim>\<open>read_file\<close> that passes the busy test leaves \<^verbatim>\<open>d_pcap\<close> null, whether it
  returns or throws and whatever libpcap, the listener and the callback do (failure to
  open, a filter that does not compile or attach, an exception from \<^verbatim>\<open>begin_capture\<close>, a
  failed read loop, an exception leaving the callback). When a handle was opened, the
  last call made is \<^verbatim>\<open>pcap_close\<close> on that handle. The \<^verbatim>\<open>assert\<close> of \<^verbatim>\<open>read_packets\<close>
  never fails there.
\<close>

theorem read_file_closes_handle:
  assumes "d_pcap s = None"
  shows "d_pcap (snd (read_file u env f b s)) = None \<and>
         fst (read_file u env f b s) \<noteq> Inl Abort \<and>
         (\<forall>h. open_result env = Inr h \<longrightarrow>
              last (new_calls s (snd (read_file u env f b s))) = PcapClose (Some h))"
  using read_file_leaves_closed[OF assms] read_file_no_abort[OF assms]
        read_file_last_call[OF assms]
  by blast

text \<open>
  A capture whose only frame fails to parse and whose listener throws from
  \<^verbatim>\<open>accept_error\<close>: the exception leaves \<^verbatim>\<open>read_file\<close> and the handle is closed.
\<close>

theorem read_file_closes_handle_witness:
  "d_pcap (pcap_reader_t 0) = None \<and>
   open_result (env0 [((frame_with True (Inl (std_exception ''truncated'')))
                         \<lparr>accept_error_raises := Some (std_exception ''listener'')\<rparr>,
                       hdr0, [])]) = Inr 1 \<and>
   fst (read_file False
          (env0 [((frame_with True (Inl (std_exception ''truncated'')))
                    \<lparr>accept_error_raises := Some (std_exception ''listener'')\<rparr>, hdr0, [])])
          ''a.pcap'' ''tcp'' (pcap_reader_t 0)) = Inl (Throw (std_exception ''listener'')) \<and>
   d_pcap (snd (read_file False
          (env0 [((frame_with True (Inl (std_exception ''truncated'')))
                    \<lparr>accept_error_raises := Some (std_exception ''listener'')\<rparr>, hdr0, [])])
          ''a.pcap'' ''tcp'' (pcap_reader_t 0))) = None \<and>
   last (new_calls (pcap_reader_t 0) (snd (read_file False
          (env0 [((frame_with True (Inl (std_exception ''truncated'')))
                    \<lparr>accept_error_raises := Some (std_exception ''listener'')\<rparr>, hdr0, [])])
          ''a.pcap'' ''tcp'' (pcap_reader_t 0)))) = PcapClose (Some 1)"
proof -
  let ?env = "env0 [((frame_with True (Inl (std_exception ''truncated'')))
                       \<lparr>accept_error_raises := Some (std_exception ''listener'')\<rparr>, hdr0, [])]"
  have a: "d_pcap (pcap_reader_t 0) = None" by (simp add: run)
  have o: "open_result ?env = Inr 1" by (simp add: env0_def)
  have r: "fst (read_file False ?env ''a.pcap'' ''tcp'' (pcap_reader_t 0)) =
             Inl (Throw (std_exception ''listener''))"
    by (simp add: run)
  from read_file_closes_handle[OF a, of False ?env "''a.pcap''" "''tcp''"] a o r
  show ?thesis by blast
qed

subsection \<open>C8: enabling and disabling a reassembler\<close>

text \<open>
  Claim C8. \<^verbatim>\<open>enable_tcp_reassembly\<close> and \<^verbatim>\<open>enable_udp_reassembly\<close> are idempotent; a call
  with the value the reader already has changes nothing and makes no call; enabling
  from disabled constructs a reassembler bound to the current listener (one \<^verbatim>\<open>new\<close>, with
  \<^verbatim>\<open>d_listener\<close>) and changes nothing else; disabling destroys the reassembler (one
  \<^verbatim>\<open>delete\<close>), stores the null pointer and changes nothing else; and disabling, then
  enabling, deletes the old reassembler and gives a newly constructed one that has
  received nothing, whatever the old one had received.
\<close>

theorem enable_reassembly_idempotent_and_fresh:
  "enable_tcp_reassembly en (enable_tcp_reassembly en s) = enable_tcp_reassembly en s \<and>
   enable_udp_reassembly en (enable_udp_reassembly en s) = enable_udp_reassembly en s \<and>
   ((d_tcp_reassembler s \<noteq> None) = en \<longrightarrow> enable_tcp_reassembly en s = s) \<and>
   ((d_udp_reassembler s \<noteq> None) = en \<longrightarrow> enable_udp_reassembly en s = s) \<and>
   (d_tcp_reassembler s = None \<longrightarrow>
      d_tcp_reassembler (enable_tcp_reassembly True s) =
        Some \<lparr>ctor_listener = d_listener s, received = []\<rparr>) \<and>
   (d_udp_reassembler s = None \<longrightarrow>
      d_udp_reassembler (enable_udp_reassembly True s) =
        Some \<lparr>ctor_listener = d_listener s, received = []\<rparr>) \<and>
   d_tcp_reassembler (enable_tcp_reassembly False s) = None \<and>
   d_udp_reassembler (enable_udp_reassembly False s) = None \<and>
   d_tcp_reassembler (enable_tcp_reassembly True (enable_tcp_reassembly False s)) =
     Some \<lparr>ctor_listener = d_listener s, received = []\<rparr> \<and>
   d_udp_reassembler (enable_udp_reassembly True (enable_udp_reassembly False s)) =
     Some \<lparr>ctor_listener = d_listener s, received = []\<rparr> \<and>
   (d_tcp_reassembler s \<noteq> None \<longrightarrow>
      enable_tcp_reassembly False s =
        s\<lparr>d_tcp_reassembler := None, calls := calls s @ [DeleteTcp]\<rparr>) \<and>
   (d_udp_reassembler s \<noteq> None \<longrightarrow>
      enable_udp_reassembly False s =
        s\<lparr>d_udp_reassembler := None, calls := calls s @ [DeleteUdp]\<rparr>) \<and>
   (d_tcp_reassembler s = None \<longrightarrow>
      enable_tcp_reassembly True s =
        s\<lparr>d_tcp_reassembler := Some \<lparr>ctor_listener = d_listener s, received = []\<rparr>,
          calls := calls s @ [NewTcp (d_listener s)]\<rparr>) \<and>
   (d_udp_reassembler s = None \<longrightarrow>
      enable_udp_reassembly True s =
        s\<lparr>d_udp_reassembler := Some \<lparr>ctor_listener = d_listener s, received = []\<rparr>,
          calls := calls s @ [NewUdp (d_listener s)]\<rparr>) \<and>
   (d_tcp_reassembler s \<noteq> None \<longrightarrow>
      new_calls s (enable_tcp_reassembly True (enable_tcp_reassembly False s)) =
        [DeleteTcp, NewTcp (d_listener s)]) \<and>
   (d_udp_reassembler s \<noteq> None \<longrightarrow>
      new_calls s (enable_udp_reassembly True (enable_udp_reassembly False s)) =
        [DeleteUdp, NewUdp (d_listener s)])"
  by (simp add: enable_tcp_reassembly_def enable_udp_reassembly_def new_reassembler_def
                new_calls_def)

text \<open>
  A reader whose TCP reassembler has been handed a packet: disabling it runs the
  \<^verbatim>\<open>delete\<close>, and enabling it again constructs a reassembler that has received nothing.
\<close>

theorem enable_reassembly_idempotent_and_fresh_witness:
  "d_tcp_reassembler handed_over =
     Some \<lparr>ctor_listener = 0, received = [SetNow 0, Process 0]\<rparr> \<and>
   d_udp_reassembler handed_over \<noteq> None \<and>
   enable_tcp_reassembly True handed_over = handed_over \<and>
   enable_udp_reassembly True handed_over = handed_over \<and>
   enable_tcp_reassembly False handed_over =
     handed_over\<lparr>d_tcp_reassembler := None, calls := calls handed_over @ [DeleteTcp]\<rparr> \<and>
   enable_udp_reassembly False handed_over =
     handed_over\<lparr>d_udp_reassembler := None, calls := calls handed_over @ [DeleteUdp]\<rparr> \<and>
   new_calls handed_over
     (enable_tcp_reassembly True (enable_tcp_reassembly False handed_over)) =
     [DeleteTcp, NewTcp 0] \<and>
   new_calls handed_over
     (enable_udp_reassembly True (enable_udp_reassembly False handed_over)) =
     [DeleteUdp, NewUdp 0] \<and>
   d_tcp_reassembler (enable_tcp_reassembly True (enable_tcp_reassembly False handed_over)) =
     Some \<lparr>ctor_listener = 0, received = []\<rparr> \<and>
   d_tcp_reassembler (enable_udp_reassembly False (enable_tcp_reassembly False handed_over)) =
     None \<and>
   d_udp_reassembler (enable_udp_reassembly False (enable_tcp_reassembly False handed_over)) =
     None \<and>
   d_tcp_reassembler
     (enable_tcp_reassembly True
        (enable_udp_reassembly False (enable_tcp_reassembly False handed_over))) =
     Some \<lparr>ctor_listener = 0, received = []\<rparr> \<and>
   d_udp_reassembler
     (enable_udp_reassembly True
        (enable_udp_reassembly False (enable_tcp_reassembly False handed_over))) =
     Some \<lparr>ctor_listener = 0, received = []\<rparr> \<and>
   new_calls (enable_udp_reassembly False (enable_tcp_reassembly False handed_over))
     (enable_tcp_reassembly True
        (enable_udp_reassembly False (enable_tcp_reassembly False handed_over))) =
     [NewTcp 0] \<and>
   new_calls (enable_udp_reassembly False (enable_tcp_reassembly False handed_over))
     (enable_udp_reassembly True
        (enable_udp_reassembly False (enable_tcp_reassembly False handed_over))) =
     [NewUdp 0]"
proof -
  let ?off = "enable_udp_reassembly False (enable_tcp_reassembly False handed_over)"
  have t: "d_tcp_reassembler handed_over =
             Some \<lparr>ctor_listener = 0, received = [SetNow 0, Process 0]\<rparr>"
    and l: "d_listener handed_over = 0"
    and h1: "(d_tcp_reassembler handed_over \<noteq> None) = True"
    and h2: "(d_udp_reassembler handed_over \<noteq> None) = True"
    by (simp_all add: handed_over_def run)
  from h1 h2 have e1: "d_tcp_reassembler handed_over \<noteq> None"
    and e2: "d_udp_reassembler handed_over \<noteq> None" by simp_all
  have n1: "d_tcp_reassembler ?off = None" and n2: "d_udp_reassembler ?off = None"
    and l2: "d_listener ?off = d_listener handed_over"
    by (simp_all add: enable_tcp_reassembly_def enable_udp_reassembly_def)
  from enable_reassembly_idempotent_and_fresh[of True handed_over] h1 h2 e1 e2
  have p1: "enable_tcp_reassembly True handed_over = handed_over"
    "enable_udp_reassembly True handed_over = handed_over"
    "d_tcp_reassembler (enable_tcp_reassembly True (enable_tcp_reassembly False handed_over)) =
       Some \<lparr>ctor_listener = d_listener handed_over, received = []\<rparr>"
    "enable_tcp_reassembly False handed_over =
       handed_over\<lparr>d_tcp_reassembler := None, calls := calls handed_over @ [DeleteTcp]\<rparr>"
    "enable_udp_reassembly False handed_over =
       handed_over\<lparr>d_udp_reassembler := None, calls := calls handed_over @ [DeleteUdp]\<rparr>"
    "new_calls handed_over
       (enable_tcp_reassembly True (enable_tcp_reassembly False handed_over)) =
       [DeleteTcp, NewTcp (d_listener handed_over)]"
    "new_calls handed_over
       (enable_udp_reassembly True (enable_udp_reassembly False handed_over)) =
       [DeleteUdp, NewUdp (d_listener handed_over)]"
    by blast+
  from enable_reassembly_idempotent_and_fresh[of True ?off] n1 n2
  have q: "enable_tcp_reassembly True ?off =
       ?off\<lparr>d_tcp_reassembler := Some \<lparr>ctor_listener = d_listener ?off, received = []\<rparr>,
            calls := calls ?off @ [NewTcp (d_listener ?off)]\<rparr>"
    "enable_udp_reassembly True ?off =
       ?off\<lparr>d_udp_reassembler := Some \<lparr>ctor_listener = d_listener ?off, received = []\<rparr>,
            calls := calls ?off @ [NewUdp (d_listener ?off)]\<rparr>"
    by blast+
  have p2: "d_tcp_reassembler (enable_tcp_reassembly True ?off) =
       Some \<lparr>ctor_listener = d_listener ?off, received = []\<rparr>"
    "d_udp_reassembler (enable_udp_reassembly True ?off) =
       Some \<lparr>ctor_listener = d_listener ?off, received = []\<rparr>"
    "new_calls ?off (enable_tcp_reassembly True ?off) = [NewTcp (d_listener ?off)]"
    "new_calls ?off (enable_udp_reassembly True ?off) = [NewUdp (d_listener ?off)]"
    by (simp_all add: q new_calls_def)
  from t e2 p1 n1 n2 p2 show ?thesis unfolding l2 l by blast
qed

subsection \<open>C9: reassembly is on after construction\<close>

text \<open>
  Claim C9. The constructor leaves a TCP reassembler and a UDP reassembler in place,
  each constructed with the listener given to the constructor and having received
  nothing; no handle is open.
\<close>

theorem constructor_enables_reassembly:
  "d_tcp_reassembler (pcap_reader_t l) = Some \<lparr>ctor_listener = l, received = []\<rparr> \<and>
   d_udp_reassembler (pcap_reader_t l) = Some \<lparr>ctor_listener = l, received = []\<rparr> \<and>
   d_listener (pcap_reader_t l) = l \<and> d_pcap (pcap_reader_t l) = None \<and>
   calls (pcap_reader_t l) = [NewTcp l, NewUdp l]"
  by (simp add: pcap_reader_t_def enable_tcp_reassembly_def enable_udp_reassembly_def
                new_reassembler_def)

subsection \<open>C10: a released packet is still copied\<close>

text \<open>
  Claim C10. In the default build (\<^verbatim>\<open>UNKNOWN_LAYER_AS_ERROR\<close> not defined), when \<^verbatim>\<open>init\<close> throws
  \<^verbatim>\<open>unknown_layer_t\<close> and leaves \<^verbatim>\<open>must_copy\<close> true, the callback releases the packet to the
  pool and then calls \<^verbatim>\<open>copy_data\<close> on the packet it has just released, before it
  returns. (That \<^verbatim>\<open>release\<close> itself returns is understood; if it threw, the exception
  would leave the callback.)
\<close>

theorem unknown_layer_released_then_copied:
  assumes "init_outcome c = Inl (unknown_layer_t msg)" and "init_must_copy c"
    and "release_raises c = None"
  shows "new_calls s (snd (handle_packet False c hdr data s)) =
           [Claim (claimed c), Init (claimed c) (d_linktype s) hdr data,
            Release (claimed c), CopyData (claimed c)]"
  using assms
  by (simp add: handle_packet_unfold try_block_def handlers_def copy_if_borrowed_def
                seq_def extcall_def new_calls_def)

theorem unknown_layer_released_then_copied_witness:
  "init_outcome (frame_with True (Inl (unknown_layer_t ''ppp''))) = Inl (unknown_layer_t ''ppp'') \<and>
   init_must_copy (frame_with True (Inl (unknown_layer_t ''ppp''))) \<and>
   release_raises (frame_with True (Inl (unknown_layer_t ''ppp''))) = None \<and>
   new_calls live_session
     (snd (handle_packet False (frame_with True (Inl (unknown_layer_t ''ppp''))) hdr0 []
             live_session)) =
     [Claim 0, Init 0 (Some 1) hdr0 [], Release 0, CopyData 0]"
proof -
  let ?c = "frame_with True (Inl (unknown_layer_t ''ppp''))"
  have a: "init_outcome ?c = Inl (unknown_layer_t ''ppp'')" and b: "init_must_copy ?c"
    and d: "release_raises ?c = None" and p: "claimed ?c = 0"
    by (simp_all add: frame_with_def)
  have l: "d_linktype live_session = Some 1" by (simp add: run)
  from unknown_layer_released_then_copied[OF a b d, of live_session hdr0 "[]"] a b d
  show ?thesis unfolding p l by blast
qed

end
